theory Spec2Isabelle
  imports Main
begin

section \<open>Values of the JavaScript runtime\<close>

datatype json =
    JNull
  | JBool bool
  | JNum int
  | JStr string
  | JArr "json list"
  | JObj "(string \<times> json) list"

text \<open>
  A thrown value. \<open>JsError m\<close> is an instance of \<open>Error\<close> with message \<open>m\<close>;
  \<open>JsOther v\<close> is any other value (JavaScript lets a program throw anything, and the
  handlers of the service test \<open>instanceof Error\<close>).
\<close>

datatype js_thrown = JsError string | JsOther json

fun instanceof_Error :: "js_thrown \<Rightarrow> bool" where
  "instanceof_Error (JsError m) = True"
| "instanceof_Error (JsOther v) = False"

datatype attr_value = AStr string | ANum int | AUndefined

fun message :: "js_thrown \<Rightarrow> attr_value" where
  "message (JsError m) = AStr m"
| "message (JsOther v) = AUndefined"

fun opt_str :: "string option \<Rightarrow> attr_value" where
  "opt_str None = AUndefined"
| "opt_str (Some s) = AStr s"

fun opt_num :: "nat option \<Rightarrow> attr_value" where
  "opt_num None = AUndefined"
| "opt_num (Some n) = ANum (int n)"

type_synonym attributes = "(string \<times> attr_value) list"

section \<open>Telemetry objects\<close>

datatype instrument_kind = Histogram | Counter

record instrument =
  inst_kind :: instrument_kind
  inst_name :: string
  inst_description :: string

type_synonym observation = "string \<times> int \<times> attributes"

datatype log_entry =
    Log string
  | LogError string js_thrown
  | LogErrorSpanId string "nat option"

text \<open>
  The Prometheus exporter is constructed with its port and a callback; the callback is
  kept by the exporter and run later, when its server listens. It is written as the line
  it logs.
\<close>

datatype metric_reader =
    PeriodicExportingMetricReader string nat nat
  | PrometheusExporter nat log_entry

record meter_provider =
  mp_resource :: "(string \<times> string) list"
  mp_readers :: "metric_reader list"

record meter =
  meter_name :: string
  meter_resource :: "(string \<times> string) list"

datatype trace_exporter = OTLPTraceExporter string

datatype span_processor = BatchSpanProcessor trace_exporter

datatype sampler = OurSampler | ParentBasedSampler sampler

datatype propagator =
    W3CTraceContextPropagator
  | W3CBaggagePropagator
  | CompositePropagator "propagator list"

datatype instrumentation_option =
    Enabled bool
  | HeadersToSpanAttributes "string list" "string list"

record sdk_config =
  sdk_resource :: "(string \<times> string) list"
  sdk_instrumentations :: "(string \<times> instrumentation_option) list"
  sdk_traceExporter :: trace_exporter
  sdk_spanProcessors :: "span_processor list"
  sdk_autoDetectResources :: bool
  sdk_sampler :: sampler
  sdk_textMapPropagator :: propagator

record pyroscope_state =
  pyro_appName :: string
  pyro_serverAddress :: string
  pyro_running :: bool

datatype signal_handler = StopPyroscopeAndExit

datatype status_code = UNSET | OK | ERROR

text \<open>
  A span object, as the calls made on it: the attributes set, the exceptions passed to
  \<open>recordException\<close>, the last status set, and how many times \<open>end\<close> was called.
\<close>

record span =
  sp_name :: string
  sp_attributes :: attributes
  sp_exceptions :: "js_thrown list"
  sp_status :: "status_code \<times> attr_value"
  sp_end_calls :: nat

record otel_context =
  ctx_span :: "nat option"
  ctx_baggage :: "(string \<times> string) list"

text \<open>
  What was sent: by \<open>res.sendStatus\<close> (status and the text body), by \<open>res.json\<close>
  (status and the JSON body), or by the framework's own final handler.
\<close>

datatype reply =
    SendStatus nat string
  | SendJson nat json
  | FinalHandler nat

section \<open>The process state and its environment\<close>

text \<open>
  Everything the two modules mutate: the clock read by \<open>Date.now()\<close>, the console, the
  profiler, the global meter provider, the instruments and their observations, the SDK,
  the signal handlers, the span store (a span is referred to by its index), the active
  context, the commands sent to the store, and the request and response objects of the
  request in flight (\<open>req.route\<close>, \<open>res.statusCode\<close>, what was sent, and the start
  times captured by the listeners of the response's \<open>finish\<close> event).
\<close>

record world =
  clock :: int
  console :: "log_entry list"
  pyroscope :: "pyroscope_state option"
  global_meter_provider :: "meter_provider option"
  registry :: "instrument list"
  observations :: "observation list"
  sdk :: "(sdk_config \<times> bool) option"
  sigint_handlers :: "signal_handler list"
  spans :: "span list"
  active :: otel_context
  redis_commands :: "string list"
  req_route :: "string option"
  res_statusCode :: nat
  replies :: "reply list"
  finish_listeners :: "int list"

record response =
  resp_status :: int
  resp_data :: json

text \<open>
  What the collaborators answer: whether \<open>sdk.start()\<close> throws, the headers the
  configured propagator writes for a context, the outcome and latency of the HTTP client,
  of the store's \<open>keys\<close> and \<open>get\<close>, and of \<open>JSON.parse\<close>. \<open>Inl\<close> is a thrown
  value (a rejected promise, for the awaited calls).
\<close>

record env =
  sdk_start :: "js_thrown option"
  inject :: "otel_context \<Rightarrow> (string \<times> string) list"
  axios :: "string \<Rightarrow> string \<Rightarrow> (string \<times> string) list \<Rightarrow> js_thrown + response"
  axios_ms :: int
  redis_keys :: "string \<Rightarrow> js_thrown + string list"
  redis_get :: "string \<Rightarrow> js_thrown + string option"
  redis_ms :: int
  JSON_parse :: "string \<Rightarrow> js_thrown + json"

section \<open>Metric instruments\<close>

definition createHistogram :: "meter \<Rightarrow> string \<Rightarrow> string \<Rightarrow> world \<Rightarrow> instrument \<times> world" where
  "createHistogram m name description w =
     (let i = \<lparr>inst_kind = Histogram, inst_name = name, inst_description = description\<rparr>
      in (i, w\<lparr>registry := registry w @ [i]\<rparr>))"

definition createCounter :: "meter \<Rightarrow> string \<Rightarrow> string \<Rightarrow> world \<Rightarrow> instrument \<times> world" where
  "createCounter m name description w =
     (let i = \<lparr>inst_kind = Counter, inst_name = name, inst_description = description\<rparr>
      in (i, w\<lparr>registry := registry w @ [i]\<rparr>))"

definition record_value :: "instrument \<Rightarrow> int \<Rightarrow> attributes \<Rightarrow> world \<Rightarrow> world" where
  "record_value i v labels w = w\<lparr>observations := observations w @ [(inst_name i, v, labels)]\<rparr>"

definition add_value :: "instrument \<Rightarrow> int \<Rightarrow> attributes \<Rightarrow> world \<Rightarrow> world" where
  "add_value i v labels w = w\<lparr>observations := observations w @ [(inst_name i, v, labels)]\<rparr>"

section \<open>tracer.ts\<close>

text \<open>The five tracking functions; the instrument each closes over is its first argument.\<close>

definition trackHttpRequest ::
  "instrument \<Rightarrow> int \<Rightarrow> string option \<Rightarrow> nat option \<Rightarrow> string option \<Rightarrow> world \<Rightarrow> world" where
  "trackHttpRequest httpCalls duration route status method =
     record_value httpCalls duration
       [(''route'', opt_str route), (''status'', opt_num status), (''method'', opt_str method)]"

definition trackRedisCall :: "instrument \<Rightarrow> int \<Rightarrow> string \<Rightarrow> world \<Rightarrow> world" where
  "trackRedisCall redisCalls duration operation =
     record_value redisCalls duration [(''operation'', AStr operation)]"

definition trackError ::
  "instrument \<Rightarrow> string option \<Rightarrow> string option \<Rightarrow> world \<Rightarrow> world" where
  "trackError errorCount method route =
     add_value errorCount 1 [(''method'', opt_str method), (''route'', opt_str route)]"

definition trackSpanDuration :: "instrument \<Rightarrow> string \<Rightarrow> int \<Rightarrow> world \<Rightarrow> world" where
  "trackSpanDuration spanDuration spanName duration =
     record_value spanDuration duration [(''span_name'', AStr spanName)]"

definition trackSpanError :: "instrument \<Rightarrow> string \<Rightarrow> js_thrown \<Rightarrow> world \<Rightarrow> world" where
  "trackSpanError spanErrorCount spanName error =
     add_value spanErrorCount 1 [(''span_name'', AStr spanName), (''error_message'', message error)]"

text \<open>What \<open>start\<close> returns.\<close>

record telemetry =
  meter_fn :: meter
  trackHttpRequest_fn :: "int \<Rightarrow> string option \<Rightarrow> nat option \<Rightarrow> string option \<Rightarrow> world \<Rightarrow> world"
  trackRedisCall_fn :: "int \<Rightarrow> string \<Rightarrow> world \<Rightarrow> world"
  trackError_fn :: "string option \<Rightarrow> string option \<Rightarrow> world \<Rightarrow> world"
  trackSpanDuration_fn :: "string \<Rightarrow> int \<Rightarrow> world \<Rightarrow> world"
  trackSpanError_fn :: "string \<Rightarrow> js_thrown \<Rightarrow> world \<Rightarrow> world"

text \<open>
  The resource attributes. The key \<open>SemanticResourceAttributes.SERVICE_NAME\<close> comes
  from the semantic-conventions package, where it is the string \<open>service.name\<close>.
\<close>

definition resource_of :: "string \<Rightarrow> (string \<times> string) list" where
  "resource_of serviceName =
     [(''service.name'', serviceName), (''team.owner'', ''Ashish''), (''deployment'', ''4'')]"

definition auto_instrumentations :: "(string \<times> instrumentation_option) list" where
  "auto_instrumentations =
     [(''@opentelemetry/instrumentation-fs'', Enabled True),
      (''@opentelemetry/instrumentation-http'',
         HeadersToSpanAttributes [''tracestate'', ''traceparent'', ''baggage'']
                                 [''tracestate'', ''traceparent'', ''baggage'']),
      (''@opentelemetry/instrumentation-express'', Enabled True)]"

text \<open>
  The \<open>try\<close> around \<open>sdk.start()\<close>: the SDK runs and a line is logged, or the thrown
  value is logged and nothing else happens.
\<close>

definition try_sdk_start :: "env \<Rightarrow> world \<Rightarrow> world" where
  "try_sdk_start e w =
     (case sdk_start e of
        None \<Rightarrow>
          w\<lparr>sdk := map_option (\<lambda>(c, r). (c, True)) (sdk w),
            console := console w @ [Log ''OpenTelemetry SDK started successfully'']\<rparr>
      | Some error \<Rightarrow>
          w\<lparr>console := console w @ [LogError ''Error starting OpenTelemetry SDK:'' error]\<rparr>)"

text \<open>
  \<open>start\<close> of \<open>tracer.ts\<close>, statement by statement. The constructors and the
  profiler's \<open>init\<close> and \<open>start\<close> are taken to return; \<open>sdk.start()\<close>, the one
  call the function guards, may throw. The callback that logs the scrape endpoint is handed
  to the exporter and does not run inside \<open>start\<close>.
\<close>

definition start :: "env \<Rightarrow> string \<Rightarrow> world \<Rightarrow> telemetry \<times> world" where
  "start e serviceName w0 =
     (let resource = resource_of serviceName;
          w1 = w0\<lparr>pyroscope := Some \<lparr>pyro_appName = ''todo-app'',
                     pyro_serverAddress = ''http://pyroscope:4040'', pyro_running = False\<rparr>\<rparr>;
          w2 = w1\<lparr>pyroscope := map_option (\<lambda>p. p\<lparr>pyro_running := True\<rparr>) (pyroscope w1)\<rparr>;
          prometheusExporter =
             PrometheusExporter 9494
               (Log ''Prometheus scrape endpoint: http://localhost:9494/metrics'');
          metricReader = PeriodicExportingMetricReader ''http://collector:4318/v1/metrics'' 60000 30000;
          meterProvider = \<lparr>mp_resource = resource, mp_readers = [metricReader, prometheusExporter]\<rparr>;
          w4 = w2\<lparr>global_meter_provider := Some meterProvider\<rparr>;
          meter = \<lparr>meter_name = serviceName, meter_resource = mp_resource meterProvider\<rparr>;
          (httpCalls, w5) = createHistogram meter ''http_calls'' ''Tracks HTTP request duration'' w4;
          (redisCalls, w6) = createHistogram meter ''redis_calls'' ''Tracks Redis call duration'' w5;
          (errorCount, w7) = createCounter meter ''error_count'' ''Counts application errors'' w6;
          (spanDuration, w8) =
             createHistogram meter ''span_duration_seconds'' ''Tracks span duration in seconds'' w7;
          (spanErrorCount, w9) =
             createCounter meter ''span_error_count'' ''Counts the number of errors in spans'' w8;
          traceExporter = OTLPTraceExporter ''http://collector:4318/v1/traces'';
          spanProcessor = BatchSpanProcessor traceExporter;
          w10 = w9\<lparr>sdk := Some (\<lparr>sdk_resource = resource,
                      sdk_instrumentations = auto_instrumentations,
                      sdk_traceExporter = traceExporter,
                      sdk_spanProcessors = [spanProcessor],
                      sdk_autoDetectResources = True,
                      sdk_sampler = ParentBasedSampler OurSampler,
                      sdk_textMapPropagator =
                        CompositePropagator [W3CTraceContextPropagator, W3CBaggagePropagator]\<rparr>,
                    False)\<rparr>;
          w11 = try_sdk_start e w10;
          w12 = w11\<lparr>sigint_handlers := sigint_handlers w11 @ [StopPyroscopeAndExit]\<rparr>
      in (\<lparr>meter_fn = meter,
           trackHttpRequest_fn = trackHttpRequest httpCalls,
           trackRedisCall_fn = trackRedisCall redisCalls,
           trackError_fn = trackError errorCount,
           trackSpanDuration_fn = trackSpanDuration spanDuration,
           trackSpanError_fn = trackSpanError spanErrorCount\<rparr>, w12))"

section \<open>The second bootstrap file (unnamed/part\_000)\<close>

text \<open>
  The file repeats \<open>start\<close> and its five inner functions; they are embedded again from
  its own text, with the suffix \<open>_000\<close>.
\<close>

definition trackHttpRequest_000 ::
  "instrument \<Rightarrow> int \<Rightarrow> string option \<Rightarrow> nat option \<Rightarrow> string option \<Rightarrow> world \<Rightarrow> world" where
  "trackHttpRequest_000 httpCalls duration route status method =
     record_value httpCalls duration
       [(''route'', opt_str route), (''status'', opt_num status), (''method'', opt_str method)]"

definition trackRedisCall_000 :: "instrument \<Rightarrow> int \<Rightarrow> string \<Rightarrow> world \<Rightarrow> world" where
  "trackRedisCall_000 redisCalls duration operation =
     record_value redisCalls duration [(''operation'', AStr operation)]"

definition trackError_000 ::
  "instrument \<Rightarrow> string option \<Rightarrow> string option \<Rightarrow> world \<Rightarrow> world" where
  "trackError_000 errorCount method route =
     add_value errorCount 1 [(''method'', opt_str method), (''route'', opt_str route)]"

definition trackSpanDuration_000 :: "instrument \<Rightarrow> string \<Rightarrow> int \<Rightarrow> world \<Rightarrow> world" where
  "trackSpanDuration_000 spanDuration spanName duration =
     record_value spanDuration duration [(''span_name'', AStr spanName)]"

definition trackSpanError_000 :: "instrument \<Rightarrow> string \<Rightarrow> js_thrown \<Rightarrow> world \<Rightarrow> world" where
  "trackSpanError_000 spanErrorCount spanName error =
     add_value spanErrorCount 1 [(''span_name'', AStr spanName), (''error_message'', message error)]"

definition start_000 :: "env \<Rightarrow> string \<Rightarrow> world \<Rightarrow> telemetry \<times> world" where
  "start_000 e serviceName w0 =
     (let resource = resource_of serviceName;
          prometheusExporter =
             PrometheusExporter 9494
               (Log ''Prometheus scrape endpoint: http://localhost:9494/metrics'');
          metricReader = PeriodicExportingMetricReader ''http://collector:4318/v1/metrics'' 60000 30000;
          meterProvider = \<lparr>mp_resource = resource, mp_readers = [metricReader, prometheusExporter]\<rparr>;
          w2 = w0\<lparr>global_meter_provider := Some meterProvider\<rparr>;
          meter = \<lparr>meter_name = serviceName, meter_resource = mp_resource meterProvider\<rparr>;
          (httpCalls, w3) = createHistogram meter ''http_calls'' ''Tracks HTTP request duration'' w2;
          (redisCalls, w4) = createHistogram meter ''redis_calls'' ''Tracks Redis call duration'' w3;
          (errorCount, w5) = createCounter meter ''error_count'' ''Counts application errors'' w4;
          (spanDuration, w6) =
             createHistogram meter ''span_duration_seconds'' ''Tracks span duration in seconds'' w5;
          (spanErrorCount, w7) =
             createCounter meter ''span_error_count'' ''Counts the number of errors in spans'' w6;
          traceExporter = OTLPTraceExporter ''http://jaeger:4318/v1/traces'';
          spanProcessor = BatchSpanProcessor traceExporter;
          w8 = w7\<lparr>sdk := Some (\<lparr>sdk_resource = resource,
                      sdk_instrumentations = auto_instrumentations,
                      sdk_traceExporter = traceExporter,
                      sdk_spanProcessors = [spanProcessor],
                      sdk_autoDetectResources = True,
                      sdk_sampler = ParentBasedSampler OurSampler,
                      sdk_textMapPropagator =
                        CompositePropagator [W3CTraceContextPropagator, W3CBaggagePropagator]\<rparr>,
                    False)\<rparr>;
          w9 = try_sdk_start e w8
      in (\<lparr>meter_fn = meter,
           trackHttpRequest_fn = trackHttpRequest_000 httpCalls,
           trackRedisCall_fn = trackRedisCall_000 redisCalls,
           trackError_fn = trackError_000 errorCount,
           trackSpanDuration_fn = trackSpanDuration_000 spanDuration,
           trackSpanError_fn = trackSpanError_000 spanErrorCount\<rparr>, w9))"

section \<open>todo-service.ts\<close>

subsection \<open>Requests, spans and the awaited calls\<close>

datatype query_value = QString string | QOther

text \<open>
  A query parameter is a string, or an array or object (always truthy); a missing
  parameter and the empty string are falsy.
\<close>

fun truthy_query :: "query_value option \<Rightarrow> bool" where
  "truthy_query None = False"
| "truthy_query (Some (QString s)) = (s \<noteq> [])"
| "truthy_query (Some QOther) = True"

fun truthy_json :: "json \<Rightarrow> bool" where
  "truthy_json JNull = False"
| "truthy_json (JBool b) = b"
| "truthy_json (JNum n) = (n \<noteq> 0)"
| "truthy_json (JStr s) = (s \<noteq> [])"
| "truthy_json (JArr xs) = True"
| "truthy_json (JObj kvs) = True"

fun truthy_thrown :: "js_thrown \<Rightarrow> bool" where
  "truthy_thrown (JsError m) = True"
| "truthy_thrown (JsOther v) = truthy_json v"

record request =
  req_method :: string
  req_path :: string
  req_query :: "string \<Rightarrow> query_value option"

definition startSpan :: "string \<Rightarrow> world \<Rightarrow> nat \<times> world" where
  "startSpan name w =
     (length (spans w),
      w\<lparr>spans := spans w @ [\<lparr>sp_name = name, sp_attributes = [], sp_exceptions = [],
                              sp_status = (UNSET, AUndefined), sp_end_calls = 0\<rparr>]\<rparr>)"

definition update_span :: "nat \<Rightarrow> (span \<Rightarrow> span) \<Rightarrow> world \<Rightarrow> world" where
  "update_span i f w =
     (if i < length (spans w) then w\<lparr>spans := (spans w)[i := f (spans w ! i)]\<rparr> else w)"

definition setAttribute :: "nat \<Rightarrow> string \<Rightarrow> attr_value \<Rightarrow> world \<Rightarrow> world" where
  "setAttribute i k v = update_span i (\<lambda>s. s\<lparr>sp_attributes := sp_attributes s @ [(k, v)]\<rparr>)"

definition recordException :: "nat \<Rightarrow> js_thrown \<Rightarrow> world \<Rightarrow> world" where
  "recordException i x = update_span i (\<lambda>s. s\<lparr>sp_exceptions := sp_exceptions s @ [x]\<rparr>)"

definition setStatus :: "nat \<Rightarrow> status_code \<Rightarrow> attr_value \<Rightarrow> world \<Rightarrow> world" where
  "setStatus i code msg = update_span i (\<lambda>s. s\<lparr>sp_status := (code, msg)\<rparr>)"

definition span_end :: "nat \<Rightarrow> world \<Rightarrow> world" where
  "span_end i = update_span i (\<lambda>s. s\<lparr>sp_end_calls := Suc (sp_end_calls s)\<rparr>)"

definition await_axios ::
  "env \<Rightarrow> string \<Rightarrow> string \<Rightarrow> (string \<times> string) list \<Rightarrow> world \<Rightarrow> (js_thrown + response) \<times> world" where
  "await_axios e method url headers w =
     (axios e method url headers, w\<lparr>clock := clock w + axios_ms e\<rparr>)"

definition await_redis_keys :: "env \<Rightarrow> string \<Rightarrow> world \<Rightarrow> (js_thrown + string list) \<times> world" where
  "await_redis_keys e pat w =
     (redis_keys e pat,
      w\<lparr>clock := clock w + redis_ms e, redis_commands := redis_commands w @ [''KEYS '' @ pat]\<rparr>)"

definition await_redis_get :: "env \<Rightarrow> string \<Rightarrow> world \<Rightarrow> (js_thrown + string option) \<times> world" where
  "await_redis_get e key w =
     (redis_get e key,
      w\<lparr>clock := clock w + redis_ms e, redis_commands := redis_commands w @ [''GET '' @ key]\<rparr>)"

definition sleep :: "int \<Rightarrow> world \<Rightarrow> world" where
  "sleep time w = w\<lparr>clock := clock w + time\<rparr>"

definition res_status :: "nat \<Rightarrow> world \<Rightarrow> world" where
  "res_status code w = w\<lparr>res_statusCode := code\<rparr>"

definition res_json :: "json \<Rightarrow> world \<Rightarrow> world" where
  "res_json body w = w\<lparr>replies := replies w @ [SendJson (res_statusCode w) body]\<rparr>"

text \<open>
  \<open>res.sendStatus(code)\<close> sets the status and sends, as the text body, the message of
  the code in the framework's table of status messages, or the code in decimal when the
  table has none. Of that table the entries for the codes this service answers with are
  written out (the handler calls \<open>sendStatus\<close> with 500 only).
\<close>

fun status_message :: "nat \<Rightarrow> string option" where
  "status_message code =
     (if code = 200 then Some ''OK''
      else if code = 404 then Some ''Not Found''
      else if code = 500 then Some ''Internal Server Error''
      else None)"

fun decimal :: "nat \<Rightarrow> string" where
  "decimal n =
     (if n < 10 then [char_of (48 + n)]
      else decimal (n div 10) @ [char_of (48 + n mod 10)])"

definition res_sendStatus :: "nat \<Rightarrow> world \<Rightarrow> world" where
  "res_sendStatus code w =
     (let body = (case status_message code of Some m \<Rightarrow> m | None \<Rightarrow> decimal code)
      in w\<lparr>res_statusCode := code, replies := replies w @ [SendStatus code body]\<rparr>)"

definition setBaggage :: "otel_context \<Rightarrow> (string \<times> string) list \<Rightarrow> otel_context" where
  "setBaggage ctx baggage = ctx\<lparr>ctx_baggage := baggage\<rparr>"

definition context_with :: "otel_context \<Rightarrow> (world \<Rightarrow> world) \<Rightarrow> world \<Rightarrow> world" where
  "context_with ctx fn w = (let w' = fn (w\<lparr>active := ctx\<rparr>) in w'\<lparr>active := active w\<rparr>)"

subsection \<open>The two middlewares\<close>

datatype next_call = NoNext | Next "js_thrown option"

text \<open>
  The first middleware reads the clock, registers a listener for the response's
  \<open>finish\<close> event and calls \<open>next()\<close>; \<open>on_finish\<close> is the listener.
\<close>

definition on_finish :: "telemetry \<Rightarrow> request \<Rightarrow> int \<Rightarrow> world \<Rightarrow> world" where
  "on_finish h req startTime w =
     trackHttpRequest_fn h (clock w - startTime) (req_route w) (Some (res_statusCode w))
       (Some (req_method req)) w"

definition track_http_requests :: "telemetry \<Rightarrow> request \<Rightarrow> world \<Rightarrow> next_call \<times> world" where
  "track_http_requests h req w =
     (let startTime = clock w;
          w1 = w\<lparr>finish_listeners := finish_listeners w @ [startTime]\<rparr>
      in (Next None, w1))"

definition track_errors :: "telemetry \<Rightarrow> js_thrown \<Rightarrow> request \<Rightarrow> world \<Rightarrow> next_call \<times> world" where
  "track_errors h err req w =
     (if truthy_thrown err
      then (Next (Some err), trackError_fn h (Some (req_method req)) (req_route w) w)
      else (NoNext, w))"

subsection \<open>trackInternalApiCall\<close>

definition trackInternalApiCall ::
  "env \<Rightarrow> string \<Rightarrow> string \<Rightarrow> (string \<times> string) list \<Rightarrow> world \<Rightarrow> (js_thrown + response) \<times> world" where
  "trackInternalApiCall e url method baggage w =
     (let (span, w1) = startSpan (''Internal API Call: '' @ url) w;
          (r, w2) =
             (let headers = inject e (active w1);
                  (called, w') = await_axios e method url headers w1
              in case called of
                   Inl error \<Rightarrow> (Inl error, w')
                 | Inr response \<Rightarrow>
                     (Inr response,
                      setAttribute span ''http.url'' (AStr url)
                        (setAttribute span ''http.method'' (AStr method)
                          (setAttribute span ''http.status_code'' (ANum (resp_status response)) w'))));
          (r', w3) =
             (case r of
                Inr response \<Rightarrow> (Inr response, w2)
              | Inl error \<Rightarrow>
                  (Inl error,
                   if instanceof_Error error
                   then setStatus span ERROR (message error) (recordException span error w2)
                   else w2))
      in (r', span_end span w3))"

subsection \<open>The handler of GET /todos\<close>

text \<open>The loop over the keys: one \<open>get\<close> and one observation for each key.\<close>

fun read_todos ::
  "telemetry \<Rightarrow> env \<Rightarrow> string list \<Rightarrow> json list \<Rightarrow> world \<Rightarrow> (js_thrown + json list) \<times> world" where
  "read_todos h e [] todos w = (Inr todos, w)"
| "read_todos h e (key # keys) todos w =
     (let startItemTime = clock w;
          (got, w1) = await_redis_get e key w
      in case got of
           Inl error \<Rightarrow> (Inl error, w1)
         | Inr todoItem \<Rightarrow>
             (let w2 = trackRedisCall_fn h (clock w1 - startItemTime) ''get'' w1
              in case todoItem of
                   None \<Rightarrow> read_todos h e keys todos w2
                 | Some item \<Rightarrow>
                     if item = [] then read_todos h e keys todos w2
                     else (case JSON_parse e item of
                             Inl error \<Rightarrow> (Inl error, w2)
                           | Inr todo \<Rightarrow> read_todos h e keys (todos @ [todo]) w2)))"

text \<open>
  The statements of the outer \<open>try\<close> up to the two query flags: the call to the auth
  service, the keys, and the loop.
\<close>

definition fetch_user_and_todos ::
  "telemetry \<Rightarrow> env \<Rightarrow> (string \<times> string) list \<Rightarrow> world \<Rightarrow> (js_thrown + response \<times> json list) \<times> world" where
  "fetch_user_and_todos h e baggage w =
     (case trackInternalApiCall e ''http://auth:8080/auth'' ''GET'' baggage w of
        (Inl error, w1) \<Rightarrow> (Inl error, w1)
      | (Inr userResponse, w1) \<Rightarrow>
          (let startRedisTime = clock w1
           in case await_redis_keys e ''todo:*'' w1 of
                (Inl error, w2) \<Rightarrow> (Inl error, w2)
              | (Inr todoKeys, w2) \<Rightarrow>
                  (let w3 = trackRedisCall_fn h (clock w2 - startRedisTime) ''keys'' w2
                   in case read_todos h e todoKeys [] w3 of
                        (Inl error, w4) \<Rightarrow> (Inl error, w4)
                      | (Inr todos, w4) \<Rightarrow> (Inr (userResponse, todos), w4))))"

text \<open>
  The inner \<open>try\<close> of the \<open>fail\<close> branch throws an \<open>Error\<close> and catches it at once;
  when the caught value is an \<open>Error\<close> the handler records it on the active span, if
  there is one, logs, answers with \<open>sendStatus(500)\<close> and returns (\<open>True\<close>).
\<close>

definition simulate_failure :: "world \<Rightarrow> bool \<times> world" where
  "simulate_failure w =
     (let x = JsError ''Really bad error!''
      in if instanceof_Error x
         then (let activeSpan = ctx_span (active w);
                   w1 = (case activeSpan of None \<Rightarrow> w | Some i \<Rightarrow> recordException i x w);
                   w2 = w1\<lparr>console := console w1 @ [LogErrorSpanId ''Error occurred:'' activeSpan]\<rparr>
               in (True, res_sendStatus 500 w2))
         else (False, w))"

definition todos_try ::
  "telemetry \<Rightarrow> env \<Rightarrow> request \<Rightarrow> (string \<times> string) list \<Rightarrow> world \<Rightarrow> (js_thrown + unit) \<times> world" where
  "todos_try h e req baggage w =
     (case fetch_user_and_todos h e baggage w of
        (Inl error, w1) \<Rightarrow> (Inl error, w1)
      | (Inr (userResponse, todos), w1) \<Rightarrow>
          (let w2 = (if truthy_query (req_query req ''slow'') then sleep 5000 w1 else w1);
               (returned, w3) =
                 (if truthy_query (req_query req ''fail'') then simulate_failure w2 else (False, w2))
           in if returned then (Inr (), w3)
              else (Inr (),
                    res_json (JObj [(''todos'', JArr todos), (''user'', resp_data userResponse)]) w3)))"

definition get_todos :: "telemetry \<Rightarrow> env \<Rightarrow> request \<Rightarrow> world \<Rightarrow> next_call \<times> world" where
  "get_todos h e req w =
     (let baggage = [(''user.plan'', ''enterprise'')];
          contextWithBaggage = setBaggage (active w) baggage
      in (NoNext,
          context_with contextWithBaggage
            (\<lambda>w0. case todos_try h e req baggage w0 of
                     (Inr u, w1) \<Rightarrow> w1
                   | (Inl error, w1) \<Rightarrow>
                       res_json (JObj [(''error'', JStr ''Internal Server Error'')])
                         (res_status 500 w1))
            w))"

subsection \<open>The application\<close>

text \<open>
  The layers in the order the module registers them, and the framework's walk over them:
  a middleware or a route runs when no error is pending, an error-handling middleware
  (four parameters) when one is; a route runs when method and path match, and sets
  \<open>req.route\<close>; a layer that does not call \<open>next\<close> ends the walk; at the end of the
  stack the framework answers itself (404, or 500 for an error nobody handled). A route is
  matched by its method and its exact path; the looser matching of the framework (a
  \<open>HEAD\<close> request served by the \<open>GET\<close> route, a trailing slash, letter case) runs the
  same handler and is not written out.
\<close>

datatype layer =
    Use "request \<Rightarrow> world \<Rightarrow> next_call \<times> world"
  | UseError "js_thrown \<Rightarrow> request \<Rightarrow> world \<Rightarrow> next_call \<times> world"
  | Get string "request \<Rightarrow> world \<Rightarrow> next_call \<times> world"

definition final_handler :: "nat \<Rightarrow> world \<Rightarrow> world" where
  "final_handler code w = w\<lparr>res_statusCode := code, replies := replies w @ [FinalHandler code]\<rparr>"

fun after_layer ::
  "(js_thrown option \<Rightarrow> world \<Rightarrow> world) \<Rightarrow> next_call \<times> world \<Rightarrow> world" where
  "after_layer k (NoNext, w) = w"
| "after_layer k (Next p, w) = k p w"

fun dispatch :: "layer list \<Rightarrow> request \<Rightarrow> js_thrown option \<Rightarrow> world \<Rightarrow> world" where
  "dispatch [] req None w = final_handler 404 w"
| "dispatch [] req (Some err) w = final_handler 500 w"
| "dispatch (Use f # ls) req None w = after_layer (dispatch ls req) (f req w)"
| "dispatch (Use f # ls) req (Some err) w = dispatch ls req (Some err) w"
| "dispatch (UseError f # ls) req None w = dispatch ls req None w"
| "dispatch (UseError f # ls) req (Some err) w = after_layer (dispatch ls req) (f err req w)"
| "dispatch (Get p f # ls) req None w =
     (if req_method req = ''GET'' \<and> req_path req = p
      then after_layer (dispatch ls req) (f req (w\<lparr>req_route := Some p\<rparr>))
      else dispatch ls req None w)"
| "dispatch (Get p f # ls) req (Some err) w = dispatch ls req (Some err) w"

definition app :: "telemetry \<Rightarrow> env \<Rightarrow> layer list" where
  "app h e = [Use (track_http_requests h), UseError (track_errors h), Get ''/todos'' (get_todos h e)]"

definition emit_finish :: "telemetry \<Rightarrow> request \<Rightarrow> world \<Rightarrow> world" where
  "emit_finish h req w = fold (on_finish h req) (finish_listeners w) w"

text \<open>
  One inbound request: fresh request and response objects, the walk over the layers, and
  the \<open>finish\<close> event once the response has been sent.
\<close>

definition serve :: "telemetry \<Rightarrow> env \<Rightarrow> request \<Rightarrow> world \<Rightarrow> world" where
  "serve h e req w =
     (let w0 = w\<lparr>req_route := None, res_statusCode := 200, replies := [], finish_listeners := []\<rparr>;
          w1 = dispatch (app h e) req None w0
      in if replies w1 = [] then w1 else emit_finish h req w1)"

text \<open>The module's own handle: \<open>start('todo-service')\<close>.\<close>

definition todo_service :: "env \<Rightarrow> world \<Rightarrow> telemetry" where
  "todo_service e w = fst (start e ''todo-service'' w)"

section \<open>Vocabulary of the properties\<close>

text \<open>The observations of one instrument, oldest first.\<close>

definition observed :: "string \<Rightarrow> world \<Rightarrow> observation list" where
  "observed name w = filter (\<lambda>ob. fst ob = name) (observations w)"

text \<open>
  A key the loop of the handler gets past: the store answers, and what it answers is
  missing, empty, or text that \<open>JSON.parse\<close> accepts.
\<close>

definition readable :: "env \<Rightarrow> string \<Rightarrow> bool" where
  "readable e key =
     (case redis_get e key of
        Inl error \<Rightarrow> False
      | Inr None \<Rightarrow> True
      | Inr (Some item) \<Rightarrow>
          (if item = [] then True
           else (case JSON_parse e item of Inl error \<Rightarrow> False | Inr todo \<Rightarrow> True)))"


subsection \<open>Concrete inputs\<close>

definition w_init :: world where
  "w_init =
     \<lparr>clock = 0, console = [], pyroscope = None, global_meter_provider = None, registry = [],
      observations = [], sdk = None, sigint_handlers = [], spans = [],
      active = \<lparr>ctx_span = None, ctx_baggage = []\<rparr>, redis_commands = [],
      req_route = None, res_statusCode = 200, replies = [], finish_listeners = []\<rparr>"

text \<open>A process state with one span, the active one (the span of the inbound request).\<close>

definition w_request :: world where
  "w_request =
     w_init\<lparr>spans := [\<lparr>sp_name = ''GET /todos'', sp_attributes = [], sp_exceptions = [],
                         sp_status = (UNSET, AUndefined), sp_end_calls = 0\<rparr>],
            active := \<lparr>ctx_span = Some 0, ctx_baggage = []\<rparr>\<rparr>"

text \<open>An environment in which every collaborator answers; the store holds one item.\<close>

definition env_up :: env where
  "env_up =
     \<lparr>sdk_start = None,
      inject = (\<lambda>ctx. map (\<lambda>kv. (''baggage'', fst kv @ ''='' @ snd kv)) (ctx_baggage ctx)),
      axios = (\<lambda>method url headers. Inr \<lparr>resp_status = 200, resp_data = JStr ''ann''\<rparr>),
      axios_ms = 3,
      redis_keys = (\<lambda>pat. Inr [''todo:1'']),
      redis_get = (\<lambda>key. Inr (Some ''1'')),
      redis_ms = 1,
      JSON_parse = (\<lambda>text. Inr (JNum 1))\<rparr>"

definition env_auth_down :: env where
  "env_auth_down = env_up\<lparr>axios := (\<lambda>method url headers. Inl (JsError ''connect ECONNREFUSED''))\<rparr>"

definition env_auth_rejects_value :: env where
  "env_auth_rejects_value = env_up\<lparr>axios := (\<lambda>method url headers. Inl (JsOther (JStr ''aborted'')))\<rparr>"

definition env_store_down :: env where
  "env_store_down = env_up\<lparr>redis_keys := (\<lambda>pat. Inl (JsError ''read ECONNRESET''))\<rparr>"

definition env_bad_item :: env where
  "env_bad_item = env_up\<lparr>JSON_parse := (\<lambda>text. Inl (JsError ''Unexpected token''))\<rparr>"

definition env_sdk_fails :: env where
  "env_sdk_fails = env_up\<lparr>sdk_start := Some (JsError ''EADDRINUSE'')\<rparr>"

definition req_todos_fail :: request where
  "req_todos_fail =
     \<lparr>req_method = ''GET'', req_path = ''/todos'',
      req_query = (\<lambda>k. if k = ''fail'' then Some (QString ''1'') else None)\<rparr>"

definition req_todos :: request where
  "req_todos = \<lparr>req_method = ''GET'', req_path = ''/todos'', req_query = (\<lambda>k. None)\<rparr>"

subsection \<open>Vocabulary of the proofs\<close>

text \<open>The part of the state a request handler leaves alone, apart from what it sends.\<close>

definition request_frame :: "world \<Rightarrow> world \<Rightarrow> bool" where
  "request_frame w w' \<longleftrightarrow>
     finish_listeners w' = finish_listeners w \<and> res_statusCode w' = res_statusCode w \<and>
     req_route w' = req_route w \<and> replies w' = replies w \<and> active w' = active w"

text \<open>The request and response objects of a new request, and after the first middleware
  and the router have run for \<open>GET /todos\<close>.\<close>

definition fresh_request :: "world \<Rightarrow> world" where
  "fresh_request w =
     w\<lparr>req_route := None, res_statusCode := 200, replies := [], finish_listeners := []\<rparr>"

definition routed :: "world \<Rightarrow> world" where
  "routed w = (fresh_request w)\<lparr>finish_listeners := [clock w], req_route := Some ''/todos''\<rparr>"

text \<open>
  Closed forms of what the two \<open>start\<close> functions build: the SDK configuration for a
  trace endpoint, the instruments in the order of their creation, the meter provider, the
  handle returned, and whether the SDK of a state runs.
\<close>

definition sdk_config_at :: "string \<Rightarrow> string \<Rightarrow> sdk_config" where
  "sdk_config_at serviceName url =
     \<lparr>sdk_resource = resource_of serviceName,
      sdk_instrumentations = auto_instrumentations,
      sdk_traceExporter = OTLPTraceExporter url,
      sdk_spanProcessors = [BatchSpanProcessor (OTLPTraceExporter url)],
      sdk_autoDetectResources = True,
      sdk_sampler = ParentBasedSampler OurSampler,
      sdk_textMapPropagator = CompositePropagator [W3CTraceContextPropagator, W3CBaggagePropagator]\<rparr>"

definition five_instruments :: "instrument list" where
  "five_instruments =
     [\<lparr>inst_kind = Histogram, inst_name = ''http_calls'',
       inst_description = ''Tracks HTTP request duration''\<rparr>,
      \<lparr>inst_kind = Histogram, inst_name = ''redis_calls'',
       inst_description = ''Tracks Redis call duration''\<rparr>,
      \<lparr>inst_kind = Counter, inst_name = ''error_count'',
       inst_description = ''Counts application errors''\<rparr>,
      \<lparr>inst_kind = Histogram, inst_name = ''span_duration_seconds'',
       inst_description = ''Tracks span duration in seconds''\<rparr>,
      \<lparr>inst_kind = Counter, inst_name = ''span_error_count'',
       inst_description = ''Counts the number of errors in spans''\<rparr>]"

definition meter_provider_of :: "string \<Rightarrow> meter_provider" where
  "meter_provider_of serviceName =
     \<lparr>mp_resource = resource_of serviceName,
      mp_readers = [PeriodicExportingMetricReader ''http://collector:4318/v1/metrics'' 60000 30000,
                    PrometheusExporter 9494
                      (Log ''Prometheus scrape endpoint: http://localhost:9494/metrics'')]\<rparr>"

definition handle_of :: "string \<Rightarrow> telemetry" where
  "handle_of serviceName =
     \<lparr>meter_fn = \<lparr>meter_name = serviceName, meter_resource = resource_of serviceName\<rparr>,
      trackHttpRequest_fn = trackHttpRequest
        \<lparr>inst_kind = Histogram, inst_name = ''http_calls'',
          inst_description = ''Tracks HTTP request duration''\<rparr>,
      trackRedisCall_fn = trackRedisCall
        \<lparr>inst_kind = Histogram, inst_name = ''redis_calls'',
          inst_description = ''Tracks Redis call duration''\<rparr>,
      trackError_fn = trackError
        \<lparr>inst_kind = Counter, inst_name = ''error_count'',
          inst_description = ''Counts application errors''\<rparr>,
      trackSpanDuration_fn = trackSpanDuration
        \<lparr>inst_kind = Histogram, inst_name = ''span_duration_seconds'',
          inst_description = ''Tracks span duration in seconds''\<rparr>,
      trackSpanError_fn = trackSpanError
        \<lparr>inst_kind = Counter, inst_name = ''span_error_count'',
          inst_description = ''Counts the number of errors in spans''\<rparr>\<rparr>"

definition sdk_running :: "world \<Rightarrow> bool" where
  "sdk_running w = (case sdk w of None \<Rightarrow> False | Some (c, running) \<Rightarrow> running)"

section \<open>Properties\<close>

subsection \<open>Frame and effect lemmas\<close>


lemmas span_ops = startSpan_def update_span_def setAttribute_def recordException_def
  setStatus_def span_end_def

lemma todo_service_eq:
  "todo_service eb wb =
     \<lparr>meter_fn = \<lparr>meter_name = ''todo-service'', meter_resource = resource_of ''todo-service''\<rparr>,
      trackHttpRequest_fn = trackHttpRequest
        \<lparr>inst_kind = Histogram, inst_name = ''http_calls'', inst_description = ''Tracks HTTP request duration''\<rparr>,
      trackRedisCall_fn = trackRedisCall
        \<lparr>inst_kind = Histogram, inst_name = ''redis_calls'', inst_description = ''Tracks Redis call duration''\<rparr>,
      trackError_fn = trackError
        \<lparr>inst_kind = Counter, inst_name = ''error_count'', inst_description = ''Counts application errors''\<rparr>,
      trackSpanDuration_fn = trackSpanDuration
        \<lparr>inst_kind = Histogram, inst_name = ''span_duration_seconds'',
          inst_description = ''Tracks span duration in seconds''\<rparr>,
      trackSpanError_fn = trackSpanError
        \<lparr>inst_kind = Counter, inst_name = ''span_error_count'',
          inst_description = ''Counts the number of errors in spans''\<rparr>\<rparr>"
  by (simp add: todo_service_def start_def createHistogram_def createCounter_def Let_def)

lemma request_frame_refl [simp]: "request_frame w w"
  by (simp add: request_frame_def)

lemma request_frame_trans: "request_frame w w1 \<Longrightarrow> request_frame w1 w2 \<Longrightarrow> request_frame w w2"
  by (simp add: request_frame_def)

lemma tiac_frame [simp]:
  "request_frame w (snd (trackInternalApiCall e url m b w))"
  "observations (snd (trackInternalApiCall e url m b w)) = observations w"
  "redis_commands (snd (trackInternalApiCall e url m b w)) = redis_commands w"
  by (auto simp: trackInternalApiCall_def span_ops await_axios_def Let_def request_frame_def
      split: sum.splits prod.splits if_splits)

lemma tiac_result [simp]:
  "fst (trackInternalApiCall e url m b w) = axios e m url (inject e (active w))"
  by (auto simp: trackInternalApiCall_def span_ops await_axios_def Let_def
      split: sum.splits prod.splits if_splits)

lemma read_todos_frame:
  "request_frame w (snd (read_todos (todo_service eb wb) e keys todos w)) \<and>
   (\<forall>n. n \<noteq> ''redis_calls'' \<longrightarrow>
      observed n (snd (read_todos (todo_service eb wb) e keys todos w)) = observed n w)"
proof (induction keys arbitrary: todos w)
  case Nil
  show ?case by simp
next
  case (Cons key keys)
  let ?w2 = "trackRedisCall_fn (todo_service eb wb) (clock (snd (await_redis_get e key w)) - clock w) ''get''
               (snd (await_redis_get e key w))"
  have f2: "request_frame w ?w2"
    by (simp add: request_frame_def todo_service_eq trackRedisCall_def record_value_def await_redis_get_def)
  have o2: "\<forall>n. n \<noteq> ''redis_calls'' \<longrightarrow> observed n ?w2 = observed n w"
    by (simp add: observed_def todo_service_eq trackRedisCall_def record_value_def await_redis_get_def)
  have f1: "request_frame w (snd (await_redis_get e key w))"
    by (simp add: request_frame_def await_redis_get_def)
  have o1: "\<forall>n. observed n (snd (await_redis_get e key w)) = observed n w"
    by (simp add: observed_def await_redis_get_def)
  from Cons.IH [where w = "?w2"] f2 o2 f1 o1 show ?case
    by (auto simp: Let_def case_prod_beta request_frame_def split: sum.splits option.splits)
qed


lemma read_todos_spans [simp]:
  "spans (snd (read_todos (todo_service eb wb) e keys todos w)) = spans w \<and>
   console (snd (read_todos (todo_service eb wb) e keys todos w)) = console w"
proof (induction keys arbitrary: todos w)
  case Nil
  show ?case by simp
next
  case (Cons key keys)
  let ?w2 = "trackRedisCall_fn (todo_service eb wb) (clock (snd (await_redis_get e key w)) - clock w) ''get''
               (snd (await_redis_get e key w))"
  have s2: "spans ?w2 = spans w \<and> console ?w2 = console w"
    by (simp add: todo_service_eq trackRedisCall_def record_value_def await_redis_get_def)
  have s1: "spans (snd (await_redis_get e key w)) = spans w \<and>
            console (snd (await_redis_get e key w)) = console w"
    by (simp add: await_redis_get_def)
  from Cons.IH [where w = "?w2"] s2 s1 show ?case
    by (auto simp: Let_def case_prod_beta split: sum.splits option.splits)
qed

lemma tiac_spans:
  "spans (snd (trackInternalApiCall e url m b w)) =
     spans w @
       [\<lparr>sp_name = ''Internal API Call: '' @ url,
         sp_attributes =
           (case axios e m url (inject e (active w)) of
              Inl x \<Rightarrow> []
            | Inr response \<Rightarrow>
                [(''http.status_code'', ANum (resp_status response)), (''http.method'', AStr m),
                 (''http.url'', AStr url)]),
         sp_exceptions =
           (case axios e m url (inject e (active w)) of
              Inl x \<Rightarrow> if instanceof_Error x then [x] else []
            | Inr response \<Rightarrow> []),
         sp_status =
           (case axios e m url (inject e (active w)) of
              Inl x \<Rightarrow> if instanceof_Error x then (ERROR, message x) else (UNSET, AUndefined)
            | Inr response \<Rightarrow> (UNSET, AUndefined)),
         sp_end_calls = 1\<rparr>]"
  by (simp add: trackInternalApiCall_def span_ops await_axios_def Let_def split: sum.splits)

lemma tiac_console [simp]:
  "console (snd (trackInternalApiCall e url m b w)) = console w"
  by (simp add: trackInternalApiCall_def span_ops await_axios_def Let_def split: sum.splits)

lemma keys_frame [simp]:
  "request_frame w (snd (await_redis_keys e p w))"
  "observations (snd (await_redis_keys e p w)) = observations w"
  "spans (snd (await_redis_keys e p w)) = spans w"
  "console (snd (await_redis_keys e p w)) = console w"
  "fst (await_redis_keys e p w) = redis_keys e p"
  by (simp_all add: await_redis_keys_def request_frame_def)

lemma track_keys_frame [simp]:
  "request_frame w (trackRedisCall_fn (todo_service eb wb) d op w)"
  "n \<noteq> ''redis_calls'' \<Longrightarrow> observed n (trackRedisCall_fn (todo_service eb wb) d op w) = observed n w"
  "spans (trackRedisCall_fn (todo_service eb wb) d op w) = spans w"
  "console (trackRedisCall_fn (todo_service eb wb) d op w) = console w"
  by (simp_all add: request_frame_def observed_def todo_service_eq trackRedisCall_def record_value_def)


lemma fetch_frame:
  "request_frame w (snd (fetch_user_and_todos (todo_service eb wb) e b w))"
  "n \<noteq> ''redis_calls'' \<Longrightarrow>
     observed n (snd (fetch_user_and_todos (todo_service eb wb) e b w)) = observed n w"
  "console (snd (fetch_user_and_todos (todo_service eb wb) e b w)) = console w"
  "\<exists>s. spans (snd (fetch_user_and_todos (todo_service eb wb) e b w)) = spans w @ [s]"
proof -
  let ?h = "todo_service eb wb"
  let ?p1 = "trackInternalApiCall e ''http://auth:8080/auth'' ''GET'' b w"
  let ?p2 = "await_redis_keys e ''todo:*'' (snd ?p1)"
  let ?w3 = "trackRedisCall_fn ?h (clock (snd ?p2) - clock (snd ?p1)) ''keys'' (snd ?p2)"
  have unfold: "fetch_user_and_todos ?h e b w =
     (case fst ?p1 of Inl error \<Rightarrow> (Inl error, snd ?p1)
      | Inr userResponse \<Rightarrow>
         (case fst ?p2 of Inl error \<Rightarrow> (Inl error, snd ?p2)
          | Inr todoKeys \<Rightarrow>
             (case fst (read_todos ?h e todoKeys [] ?w3) of
                Inl error \<Rightarrow> (Inl error, snd (read_todos ?h e todoKeys [] ?w3))
              | Inr todos \<Rightarrow> (Inr (userResponse, todos), snd (read_todos ?h e todoKeys [] ?w3)))))"
    by (simp add: fetch_user_and_todos_def Let_def case_prod_beta split: sum.splits)
  have f1: "request_frame w (snd ?p1)" by simp
  have f2: "request_frame w (snd ?p2)" using f1 by (simp add: request_frame_def await_redis_keys_def)
  have f3: "request_frame w ?w3" using f2 request_frame_trans track_keys_frame(1) by blast
  have f4: "request_frame w (snd (read_todos ?h e ks [] ?w3))" for ks
    using f3 read_todos_frame request_frame_trans by blast
  show "request_frame w (snd (fetch_user_and_todos ?h e b w))"
    unfolding unfold using f1 f2 f4 by (simp split: sum.splits)
  have o1: "observed k (snd ?p1) = observed k w" for k by (simp add: observed_def)
  have o2: "observed k (snd ?p2) = observed k w" for k by (simp add: observed_def)
  show "console (snd (fetch_user_and_todos ?h e b w)) = console w"
    unfolding unfold by (simp split: sum.splits)
  have s1: "\<exists>s. spans (snd ?p1) = spans w @ [s]" by (simp add: tiac_spans)
  show "\<exists>s. spans (snd (fetch_user_and_todos ?h e b w)) = spans w @ [s]"
    unfolding unfold using s1 by (simp split: sum.splits)
  assume n: "n \<noteq> ''redis_calls''"
  have o3: "observed n ?w3 = observed n w" using n o2 by simp
  have o4: "observed n (snd (read_todos ?h e ks [] ?w3)) = observed n w" for ks
    using n o3 read_todos_frame by simp
  show "observed n (snd (fetch_user_and_todos ?h e b w)) = observed n w"
    unfolding unfold using o1 o2 o4 by (simp split: sum.splits)
qed


lemma fetch_spans:
  "spans (snd (fetch_user_and_todos (todo_service eb wb) e b w)) =
     spans (snd (trackInternalApiCall e ''http://auth:8080/auth'' ''GET'' b w))"
  by (simp add: fetch_user_and_todos_def Let_def case_prod_beta split: sum.splits)

lemma read_todos_returns:
  "list_all (readable e) keys \<Longrightarrow> \<exists>ts. fst (read_todos h e keys todos w) = Inr ts"
proof (induction keys arbitrary: todos w)
  case Nil
  show ?case by simp
next
  case (Cons key keys)
  from Cons.prems have r: "readable e key" and rs: "list_all (readable e) keys" by simp_all
  note IH = Cons.IH [OF rs]
  show ?case
  proof (cases "redis_get e key")
    case (Inl x)
    with r show ?thesis by (simp add: readable_def)
  next
    case (Inr item)
    show ?thesis
    proof (cases item)
      case None
      with Inr IH show ?thesis by (simp add: await_redis_get_def Let_def)
    next
      case (Some s)
      show ?thesis
      proof (cases "s = []")
        case True
        with Inr Some IH show ?thesis by (simp add: await_redis_get_def Let_def)
      next
        case False
        with r Inr Some obtain todo where "JSON_parse e s = Inr todo"
          by (auto simp: readable_def split: sum.splits)
        with False Inr Some IH show ?thesis by (simp add: await_redis_get_def Let_def)
      qed
    qed
  qed
qed

lemma fetch_auth_throws:
  assumes "axios e ''GET'' ''http://auth:8080/auth'' (inject e (active w)) = Inl x"
  shows "fst (fetch_user_and_todos h e b w) = Inl x"
    and "redis_commands (snd (fetch_user_and_todos h e b w)) = redis_commands w"
proof -
  have "fst (trackInternalApiCall e ''http://auth:8080/auth'' ''GET'' b w) = Inl x"
    using assms by simp
  then have u: "fetch_user_and_todos h e b w =
      (Inl x, snd (trackInternalApiCall e ''http://auth:8080/auth'' ''GET'' b w))"
    by (simp add: fetch_user_and_todos_def case_prod_beta)
  show "fst (fetch_user_and_todos h e b w) = Inl x" by (simp add: u)
  show "redis_commands (snd (fetch_user_and_todos h e b w)) = redis_commands w" by (simp add: u)
qed

lemma fetch_returns:
  assumes "axios e ''GET'' ''http://auth:8080/auth'' (inject e (active w)) = Inr u"
    and "redis_keys e ''todo:*'' = Inr keys"
    and "list_all (readable e) keys"
  shows "\<exists>ts. fst (fetch_user_and_todos h e b w) = Inr (u, ts)"
proof -
  let ?p1 = "trackInternalApiCall e ''http://auth:8080/auth'' ''GET'' b w"
  let ?p2 = "await_redis_keys e ''todo:*'' (snd ?p1)"
  let ?w3 = "trackRedisCall_fn h (clock (snd ?p2) - clock (snd ?p1)) ''keys'' (snd ?p2)"
  have a: "fst ?p1 = Inr u" using assms(1) by simp
  have k: "fst ?p2 = Inr keys" using assms(2) by simp
  obtain ts where t: "fst (read_todos h e keys [] ?w3) = Inr ts"
    using read_todos_returns [OF assms(3)] by blast
  have "fst (fetch_user_and_todos h e b w) = Inr (u, ts)"
    using a k t by (simp add: fetch_user_and_todos_def case_prod_beta Let_def)
  then show ?thesis by blast
qed

text \<open>What the handler does, by the outcome of the fetch stage.\<close>

lemma get_todos_snd:
  "snd (get_todos h e req w) =
     (let F = fetch_user_and_todos h e [(''user.plan'', ''enterprise'')]
                (w\<lparr>active := setBaggage (active w) [(''user.plan'', ''enterprise'')]\<rparr>)
      in (case fst F of
            Inl error \<Rightarrow>
              res_json (JObj [(''error'', JStr ''Internal Server Error'')]) (res_status 500 (snd F))
          | Inr ut \<Rightarrow>
              (let w2 = (if truthy_query (req_query req ''slow'') then sleep 5000 (snd F) else snd F)
               in if truthy_query (req_query req ''fail'') then snd (simulate_failure w2)
                  else res_json (JObj [(''todos'', JArr (snd ut)), (''user'', resp_data (fst ut))]) w2))
         \<lparr>active := active w\<rparr>)"
  by (simp add: get_todos_def todos_try_def context_with_def Let_def case_prod_beta
        simulate_failure_def split: sum.splits)

lemma get_todos_sends_once:
  "\<exists>r. replies (snd (get_todos (todo_service eb wb) e req w)) = replies w @ [r]"
  using fetch_frame(1) [where w = "w\<lparr>active := setBaggage (active w) [(''user.plan'', ''enterprise'')]\<rparr>"
       and b = "[(''user.plan'', ''enterprise'')]" and eb = eb and wb = wb and e = e]
  by (simp add: get_todos_snd Let_def request_frame_def res_json_def res_status_def sleep_def
        simulate_failure_def res_sendStatus_def recordException_def update_span_def
        split: sum.splits option.splits)

lemma get_todos_keeps:
  "finish_listeners (snd (get_todos (todo_service eb wb) e req w)) = finish_listeners w"
  "req_route (snd (get_todos (todo_service eb wb) e req w)) = req_route w"
  "n \<noteq> ''redis_calls'' \<Longrightarrow> observed n (snd (get_todos (todo_service eb wb) e req w)) = observed n w"
  using fetch_frame(1,2) [where w = "w\<lparr>active := setBaggage (active w) [(''user.plan'', ''enterprise'')]\<rparr>"
       and b = "[(''user.plan'', ''enterprise'')]" and eb = eb and wb = wb and e = e]
  by (simp_all add: get_todos_snd Let_def request_frame_def res_json_def res_status_def sleep_def
        simulate_failure_def res_sendStatus_def recordException_def update_span_def observed_def
        split: sum.splits option.splits)


lemma get_todos_next: "fst (get_todos h e req w) = NoNext"
  by (simp add: get_todos_def Let_def)

lemma after_layer_NoNext: "fst p = NoNext \<Longrightarrow> after_layer k p = snd p"
  by (cases p) simp

lemma dispatch_app:
  "dispatch (app h e) req None w =
     (if req_method req = ''GET'' \<and> req_path req = ''/todos''
      then snd (get_todos h e req
                  (w\<lparr>finish_listeners := finish_listeners w @ [clock w], req_route := Some ''/todos''\<rparr>))
      else final_handler 404 (w\<lparr>finish_listeners := finish_listeners w @ [clock w]\<rparr>))"
  by (simp add: app_def track_http_requests_def Let_def after_layer_NoNext get_todos_next)

lemma serve_todos:
  assumes "req_method req = ''GET''" and "req_path req = ''/todos''"
  shows "serve (todo_service eb wb) e req w =
           on_finish (todo_service eb wb) req (clock w)
             (snd (get_todos (todo_service eb wb) e req (routed w)))"
proof -
  let ?h = "todo_service eb wb"
  let ?w1 = "snd (get_todos ?h e req (routed w))"
  have d: "dispatch (app ?h e) req None (fresh_request w) = ?w1"
    using assms by (simp add: dispatch_app routed_def fresh_request_def)
  obtain r where r: "replies ?w1 = replies (routed w) @ [r]"
    using get_todos_sends_once by blast
  have l: "finish_listeners ?w1 = [clock w]"
    by (simp add: get_todos_keeps routed_def)
  have "serve ?h e req w = emit_finish ?h req ?w1"
    using d r by (simp add: serve_def Let_def fresh_request_def [symmetric])
  then show ?thesis using l by (simp add: emit_finish_def)
qed

lemma serve_other:
  assumes "\<not> (req_method req = ''GET'' \<and> req_path req = ''/todos'')"
  shows "serve (todo_service eb wb) e req w =
           on_finish (todo_service eb wb) req (clock w)
             (final_handler 404 ((fresh_request w)\<lparr>finish_listeners := [clock w]\<rparr>))"
proof -
  let ?h = "todo_service eb wb"
  have d: "dispatch (app ?h e) req None (fresh_request w) =
             final_handler 404 ((fresh_request w)\<lparr>finish_listeners := [clock w]\<rparr>)"
    using assms by (auto simp: dispatch_app fresh_request_def)
  show ?thesis
    using d by (simp add: serve_def Let_def fresh_request_def [symmetric] final_handler_def
                  emit_finish_def)
qed

lemma on_finish_effect:
  "observations (on_finish (todo_service eb wb) req t w) =
     observations w @
       [(''http_calls'', clock w - t,
         [(''route'', opt_str (req_route w)), (''status'', ANum (int (res_statusCode w))),
          (''method'', AStr (req_method req))])]"
  "replies (on_finish (todo_service eb wb) req t w) = replies w"
  "res_statusCode (on_finish (todo_service eb wb) req t w) = res_statusCode w"
  "req_route (on_finish (todo_service eb wb) req t w) = req_route w"
  "spans (on_finish (todo_service eb wb) req t w) = spans w"
  "redis_commands (on_finish (todo_service eb wb) req t w) = redis_commands w"
  by (simp_all add: on_finish_def todo_service_eq trackHttpRequest_def record_value_def)

lemma fetch_auth_throws_snd:
  assumes "axios e ''GET'' ''http://auth:8080/auth'' (inject e (active w)) = Inl x"
  shows "snd (fetch_user_and_todos h e b w) =
           snd (trackInternalApiCall e ''http://auth:8080/auth'' ''GET'' b w)"
proof -
  have "fst (trackInternalApiCall e ''http://auth:8080/auth'' ''GET'' b w) = Inl x"
    using assms by simp
  then show ?thesis by (simp add: fetch_user_and_todos_def case_prod_beta)
qed

lemma get_todos_auth_throws:
  assumes "axios e ''GET'' ''http://auth:8080/auth''
             (inject e (setBaggage (active w) [(''user.plan'', ''enterprise'')])) = Inl x"
  shows "replies (snd (get_todos h e req w)) =
           replies w @ [SendJson 500 (JObj [(''error'', JStr ''Internal Server Error'')])]"
    and "redis_commands (snd (get_todos h e req w)) = redis_commands w"
    and "res_statusCode (snd (get_todos h e req w)) = 500"
    and "finish_listeners (snd (get_todos h e req w)) = finish_listeners w"
    and "\<exists>s. spans (snd (get_todos h e req w)) = spans w @ [s]"
proof -
  let ?b = "[(''user.plan'', ''enterprise'')]"
  let ?wa = "w\<lparr>active := setBaggage (active w) ?b\<rparr>"
  let ?T = "trackInternalApiCall e ''http://auth:8080/auth'' ''GET'' ?b ?wa"
  have a: "axios e ''GET'' ''http://auth:8080/auth'' (inject e (active ?wa)) = Inl x"
    using assms by simp
  have f: "fst (fetch_user_and_todos h e ?b ?wa) = Inl x"
    using fetch_auth_throws(1) [OF a] .
  have s: "snd (fetch_user_and_todos h e ?b ?wa) = snd ?T"
    using fetch_auth_throws_snd [OF a] .
  have g: "snd (get_todos h e req w) =
             (res_json (JObj [(''error'', JStr ''Internal Server Error'')]) (res_status 500 (snd ?T)))
               \<lparr>active := active w\<rparr>"
    by (simp add: get_todos_snd Let_def f s)
  have fr: "request_frame ?wa (snd ?T)" by simp
  show "replies (snd (get_todos h e req w)) =
           replies w @ [SendJson 500 (JObj [(''error'', JStr ''Internal Server Error'')])]"
    using fr by (simp add: g res_json_def res_status_def request_frame_def)
  show "redis_commands (snd (get_todos h e req w)) = redis_commands w"
    by (simp add: g res_json_def res_status_def)
  show "res_statusCode (snd (get_todos h e req w)) = 500"
    by (simp add: g res_json_def res_status_def)
  show "finish_listeners (snd (get_todos h e req w)) = finish_listeners w"
    using fr by (simp add: g res_json_def res_status_def request_frame_def)
  show "\<exists>s. spans (snd (get_todos h e req w)) = spans w @ [s]"
    by (simp add: g res_json_def res_status_def tiac_spans)
qed

lemma routed_simps [simp]:
  "active (routed w) = active w" "spans (routed w) = spans w" "replies (routed w) = []"
  "redis_commands (routed w) = redis_commands w" "observations (routed w) = observations w"
  "finish_listeners (routed w) = [clock w]" "req_route (routed w) = Some ''/todos''"
  by (simp_all add: routed_def fresh_request_def)

lemma simulate_failure_effect:
  "replies (snd (simulate_failure w)) = replies w @ [SendStatus 500 ''Internal Server Error'']"
  "res_statusCode (snd (simulate_failure w)) = 500"
  "i < length (spans w) \<Longrightarrow>
     sp_exceptions (spans (snd (simulate_failure w)) ! i) =
       sp_exceptions (spans w ! i) @
         (if ctx_span (active w) = Some i then [JsError ''Really bad error!''] else [])"
  by (auto simp: simulate_failure_def Let_def res_sendStatus_def recordException_def
        update_span_def nth_list_update split: option.splits)

lemma get_todos_fail_flag:
  assumes fail: "truthy_query (req_query req ''fail'')"
    and auth: "axios e ''GET'' ''http://auth:8080/auth''
                 (inject e (setBaggage (active w) [(''user.plan'', ''enterprise'')])) = Inr u"
    and keys: "redis_keys e ''todo:*'' = Inr keys"
    and items: "list_all (readable e) keys"
  shows "replies (snd (get_todos (todo_service eb wb) e req w)) =
           replies w @ [SendStatus 500 ''Internal Server Error'']"
    and "res_statusCode (snd (get_todos (todo_service eb wb) e req w)) = 500"
    and "i < length (spans w) \<Longrightarrow>
           sp_exceptions (spans (snd (get_todos (todo_service eb wb) e req w)) ! i) =
             sp_exceptions (spans w ! i) @
               (if ctx_span (active w) = Some i then [JsError ''Really bad error!''] else [])"
proof -
  let ?h = "todo_service eb wb"
  let ?b = "[(''user.plan'', ''enterprise'')]"
  let ?wa = "w\<lparr>active := setBaggage (active w) ?b\<rparr>"
  let ?F = "fetch_user_and_todos ?h e ?b ?wa"
  define w2 where "w2 = (if truthy_query (req_query req ''slow'') then sleep 5000 (snd ?F) else snd ?F)"
  have a: "axios e ''GET'' ''http://auth:8080/auth'' (inject e (active ?wa)) = Inr u"
    using auth by simp
  obtain ts where f: "fst ?F = Inr (u, ts)"
    using fetch_returns [OF a keys items] by blast
  have g: "snd (get_todos ?h e req w) = (snd (simulate_failure w2))\<lparr>active := active w\<rparr>"
    using fail by (simp add: get_todos_snd Let_def f w2_def)
  have fr: "request_frame ?wa (snd ?F)" by (rule fetch_frame(1))
  obtain s where sp: "spans (snd ?F) = spans w @ [s]"
    by (simp add: fetch_spans tiac_spans)
  have act2: "ctx_span (active w2) = ctx_span (active w)"
    using fr by (simp add: w2_def request_frame_def sleep_def setBaggage_def)
  have sp2: "spans w2 = spans w @ [s]" using sp by (simp add: w2_def sleep_def)
  have rp2: "replies w2 = replies w" using fr by (simp add: w2_def request_frame_def sleep_def)
  show "replies (snd (get_todos ?h e req w)) = replies w @ [SendStatus 500 ''Internal Server Error'']"
    by (simp add: g simulate_failure_effect(1) rp2)
  show "res_statusCode (snd (get_todos ?h e req w)) = 500"
    by (simp add: g simulate_failure_effect(2))
  assume i: "i < length (spans w)"
  then have i2: "i < length (spans w2)" by (simp add: sp2)
  have n: "spans w2 ! i = spans w ! i" using i by (simp add: sp2 nth_append)
  show "sp_exceptions (spans (snd (get_todos ?h e req w)) ! i) =
          sp_exceptions (spans w ! i) @
            (if ctx_span (active w) = Some i then [JsError ''Really bad error!''] else [])"
    using simulate_failure_effect(3) [OF i2] by (simp add: g act2 n)
qed

lemma get_todos_fetch_throws:
  assumes "fst (fetch_user_and_todos (todo_service eb wb) e [(''user.plan'', ''enterprise'')]
                  (w\<lparr>active := setBaggage (active w) [(''user.plan'', ''enterprise'')]\<rparr>)) = Inl x"
  shows "replies (snd (get_todos (todo_service eb wb) e req w)) =
           replies w @ [SendJson 500 (JObj [(''error'', JStr ''Internal Server Error'')])]"
    and "i < length (spans w) \<Longrightarrow>
           sp_exceptions (spans (snd (get_todos (todo_service eb wb) e req w)) ! i) =
             sp_exceptions (spans w ! i)"
proof -
  let ?h = "todo_service eb wb"
  let ?b = "[(''user.plan'', ''enterprise'')]"
  let ?wa = "w\<lparr>active := setBaggage (active w) ?b\<rparr>"
  define F where "F = fetch_user_and_todos ?h e ?b ?wa"
  have f: "fst F = Inl x" using assms by (simp add: F_def)
  have g: "snd (get_todos ?h e req w) =
             (res_json (JObj [(''error'', JStr ''Internal Server Error'')]) (res_status 500 (snd F)))
               \<lparr>active := active w\<rparr>"
    using f by (simp add: get_todos_snd Let_def F_def [symmetric])
  have fr: "request_frame ?wa (snd F)" unfolding F_def by (rule fetch_frame(1))
  obtain s where sp: "spans (snd F) = spans w @ [s]"
    by (simp add: F_def fetch_spans tiac_spans)
  show "replies (snd (get_todos ?h e req w)) =
          replies w @ [SendJson 500 (JObj [(''error'', JStr ''Internal Server Error'')])]"
    using fr by (simp add: g res_json_def res_status_def request_frame_def)
  assume "i < length (spans w)"
  then show "sp_exceptions (spans (snd (get_todos ?h e req w)) ! i) = sp_exceptions (spans w ! i)"
    by (simp add: g res_json_def res_status_def sp nth_append)
qed

lemma readable_up [simp]: "readable env_up k"
  by (simp add: readable_def env_up_def)

lemma error_count_untouched:
  "observed ''error_count'' (serve (todo_service eb wb) e req w) = observed ''error_count'' w"
proof (cases "req_method req = ''GET'' \<and> req_path req = ''/todos''")
  case True
  have o: "observed ''error_count'' (snd (get_todos (todo_service eb wb) e req (routed w))) =
           observed ''error_count'' w"
    by (simp add: get_todos_keeps) (simp add: observed_def)
  show ?thesis
    using True o by (simp add: serve_todos observed_def on_finish_effect)
next
  case False
  show ?thesis
    unfolding serve_other [OF False]
    by (simp add: on_finish_effect observed_def final_handler_def fresh_request_def)
qed

subsection \<open>Lemmas on the two bootstrap functions\<close>

lemma try_sdk_start_keeps [simp]:
  "sigint_handlers (try_sdk_start e w) = sigint_handlers w"
  "pyroscope (try_sdk_start e w) = pyroscope w"
  "registry (try_sdk_start e w) = registry w"
  "global_meter_provider (try_sdk_start e w) = global_meter_provider w"
  by (simp_all add: try_sdk_start_def split: option.splits)

lemma start_000_snd:
  "snd (start_000 e n w) =
     try_sdk_start e
       (w\<lparr>global_meter_provider := Some (meter_provider_of n),
          registry := registry w @ five_instruments,
          sdk := Some (sdk_config_at n ''http://jaeger:4318/v1/traces'', False)\<rparr>)"
  by (simp add: start_000_def createHistogram_def createCounter_def Let_def sdk_config_at_def
        five_instruments_def meter_provider_of_def)


lemma start_snd:
  "snd (start e n w) =
     (try_sdk_start e
       (w\<lparr>pyroscope := Some \<lparr>pyro_appName = ''todo-app'',
                             pyro_serverAddress = ''http://pyroscope:4040'', pyro_running = True\<rparr>,
          global_meter_provider := Some (meter_provider_of n),
          registry := registry w @ five_instruments,
          sdk := Some (sdk_config_at n ''http://collector:4318/v1/traces'', False)\<rparr>))
       \<lparr>sigint_handlers := sigint_handlers w @ [StopPyroscopeAndExit]\<rparr>"
  by (simp add: start_def createHistogram_def createCounter_def Let_def sdk_config_at_def
        five_instruments_def meter_provider_of_def)

lemma tracking_functions_000:
  "trackHttpRequest_000 = trackHttpRequest" "trackRedisCall_000 = trackRedisCall"
  "trackError_000 = trackError" "trackSpanDuration_000 = trackSpanDuration"
  "trackSpanError_000 = trackSpanError"
  by (simp_all add: fun_eq_iff trackHttpRequest_000_def trackHttpRequest_def
        trackRedisCall_000_def trackRedisCall_def trackError_000_def trackError_def
        trackSpanDuration_000_def trackSpanDuration_def trackSpanError_000_def trackSpanError_def)

lemma start_handle: "fst (start e n w) = handle_of n"
  by (simp add: start_def createHistogram_def createCounter_def Let_def handle_of_def)

lemma start_000_handle: "fst (start_000 e n w) = handle_of n"
  by (simp add: start_000_def createHistogram_def createCounter_def Let_def handle_of_def
        tracking_functions_000)

lemma start_console:
  "console (snd (start e n w)) =
     console w @
       (case sdk_start e of
          None \<Rightarrow> [Log ''OpenTelemetry SDK started successfully'']
        | Some error \<Rightarrow> [LogError ''Error starting OpenTelemetry SDK:'' error])"
  "console (snd (start_000 e n w)) =
     console w @
       (case sdk_start e of
          None \<Rightarrow> [Log ''OpenTelemetry SDK started successfully'']
        | Some error \<Rightarrow> [LogError ''Error starting OpenTelemetry SDK:'' error])"
  by (simp_all add: start_snd start_000_snd try_sdk_start_def split: option.splits)

lemma start_sdk_running:
  "sdk_running (snd (start e n w)) = (sdk_start e = None)"
  "sdk_running (snd (start_000 e n w)) = (sdk_start e = None)"
  by (simp_all add: start_snd start_000_snd try_sdk_start_def sdk_running_def split: option.splits)






subsection \<open>C3: one observation of http\_calls for each request\<close>

text \<open>
  C3. Every inbound request served by the application is answered, whatever the
  collaborators do and whichever route it asks for, and serving it adds exactly one
  observation to the histogram \<open>http_calls\<close>, with the labels \<open>route\<close>, \<open>status\<close>
  (the status code of the response) and \<open>method\<close>.
\<close>

theorem http_calls_once:
  "replies (serve (todo_service eb wb) e req w) \<noteq> [] \<and>
   (\<exists>duration.
      observed ''http_calls'' (serve (todo_service eb wb) e req w) =
        observed ''http_calls'' w @
          [(''http_calls'', duration,
            [(''route'', opt_str (req_route (serve (todo_service eb wb) e req w))),
             (''status'', ANum (int (res_statusCode (serve (todo_service eb wb) e req w)))),
             (''method'', AStr (req_method req))])])"
proof (cases "req_method req = ''GET'' \<and> req_path req = ''/todos''")
  case True
  let ?h = "todo_service eb wb"
  let ?w1 = "snd (get_todos ?h e req (routed w))"
  have s: "serve ?h e req w = on_finish ?h req (clock w) ?w1"
    using True serve_todos by blast
  obtain r where r: "replies ?w1 = replies (routed w) @ [r]"
    using get_todos_sends_once by blast
  have o: "observed ''http_calls'' ?w1 = observed ''http_calls'' w"
    by (simp add: get_todos_keeps) (simp add: observed_def routed_def fresh_request_def)
  show ?thesis
    unfolding s using r o by (auto simp: on_finish_effect observed_def)
next
  case False
  show ?thesis
    unfolding serve_other [OF False]
    by (auto simp: on_finish_effect observed_def final_handler_def fresh_request_def)
qed

subsection \<open>C4: error\_count on a failed request\<close>

text \<open>
  C4, evaluated at the request \<open>GET /todos?fail=1\<close> with every collaborator answering:
  the response is \<open>sendStatus(500)\<close>, and the counter \<open>error_count\<close> has no
  observation afterwards. The handler answers by itself and never hands an error to
  \<open>next\<close>, so the error-tracking middleware, the only caller of \<open>trackError\<close>, does
  not run (lemma \<open>error_count_untouched\<close> shows it for every request).
\<close>

theorem error_count_missed_on_fail:
  "replies (serve (todo_service env_up w_init) env_up req_todos_fail w_request) =
     [SendStatus 500 ''Internal Server Error''] \<and>
   res_statusCode (serve (todo_service env_up w_init) env_up req_todos_fail w_request) = 500 \<and>
   observed ''error_count'' (serve (todo_service env_up w_init) env_up req_todos_fail w_request) = []"
proof -
  let ?h = "todo_service env_up w_init"
  have q: "truthy_query (req_query req_todos_fail ''fail'')" by (simp add: req_todos_fail_def)
  have a: "axios env_up ''GET'' ''http://auth:8080/auth''
             (inject env_up (setBaggage (active (routed w_request)) [(''user.plan'', ''enterprise'')])) =
           Inr \<lparr>resp_status = 200, resp_data = JStr ''ann''\<rparr>"
    by (simp add: env_up_def)
  have k: "redis_keys env_up ''todo:*'' = Inr [''todo:1'']" by (simp add: env_up_def)
  have r: "list_all (readable env_up) [''todo:1'']" by simp
  have m: "req_method req_todos_fail = ''GET''" "req_path req_todos_fail = ''/todos''"
    by (simp_all add: req_todos_fail_def)
  note g = get_todos_fail_flag [OF q a k r, where eb = env_up and wb = w_init]
  have e: "observed ''error_count'' (serve ?h env_up req_todos_fail w_request) = []"
    by (simp add: error_count_untouched) (simp add: observed_def w_request_def w_init_def)
  show ?thesis
    using g(1,2) e by (simp add: serve_todos [OF m] on_finish_effect)
qed

subsection \<open>C5: the fail flag\<close>

text \<open>
  C5, as amended. A \<open>GET /todos\<close> request whose \<open>fail\<close> flag is truthy, whose auth
  call returns, whose \<open>keys\<close> call returns and whose items are all readable, is answered
  once, with status 500 and the text body \<open>Internal Server Error\<close> that
  \<open>res.sendStatus\<close> sends, and exactly one exception, the simulated \<open>Error\<close>, is
  recorded on the active span of the request: every span that was open gains that one
  exception if it is the active span and none otherwise.
\<close>

theorem fail_flag_sendStatus_500:
  assumes "req_method req = ''GET''" and "req_path req = ''/todos''"
    and "truthy_query (req_query req ''fail'')"
    and "axios e ''GET'' ''http://auth:8080/auth''
           (inject e (setBaggage (active w) [(''user.plan'', ''enterprise'')])) = Inr u"
    and "redis_keys e ''todo:*'' = Inr keys"
    and "list_all (readable e) keys"
  shows "replies (serve (todo_service eb wb) e req w) =
           [SendStatus 500 ''Internal Server Error''] \<and>
         res_statusCode (serve (todo_service eb wb) e req w) = 500 \<and>
         (\<forall>i<length (spans w).
            sp_exceptions (spans (serve (todo_service eb wb) e req w) ! i) =
              sp_exceptions (spans w ! i) @
                (if ctx_span (active w) = Some i then [JsError ''Really bad error!''] else []))"
proof -
  have a: "axios e ''GET'' ''http://auth:8080/auth''
             (inject e (setBaggage (active (routed w)) [(''user.plan'', ''enterprise'')])) = Inr u"
    using assms(4) by simp
  note g = get_todos_fail_flag [OF assms(3) a assms(5,6), where eb = eb and wb = wb]
  have x: "sp_exceptions (spans (snd (get_todos (todo_service eb wb) e req (routed w))) ! i) =
             sp_exceptions (spans w ! i) @
               (if ctx_span (active w) = Some i then [JsError ''Really bad error!''] else [])"
    if "i < length (spans w)" for i
    using g(3) [of i] that by simp
  show ?thesis
    unfolding serve_todos [OF assms(1,2)]
    using g(1,2) x by (simp add: on_finish_effect)
qed

text \<open>The amended C5 at a concrete request: span \<open>0\<close> is the active span.\<close>

theorem fail_flag_sendStatus_500_witness:
  "replies (serve (todo_service env_up w_init) env_up req_todos_fail w_request) =
     [SendStatus 500 ''Internal Server Error''] \<and>
   res_statusCode (serve (todo_service env_up w_init) env_up req_todos_fail w_request) = 500 \<and>
   sp_exceptions (spans (serve (todo_service env_up w_init) env_up req_todos_fail w_request) ! 0) =
     [JsError ''Really bad error!'']"
proof -
  have q: "truthy_query (req_query req_todos_fail ''fail'')" by (simp add: req_todos_fail_def)
  have a: "axios env_up ''GET'' ''http://auth:8080/auth''
             (inject env_up (setBaggage (active w_request) [(''user.plan'', ''enterprise'')])) =
           Inr \<lparr>resp_status = 200, resp_data = JStr ''ann''\<rparr>"
    by (simp add: env_up_def)
  have k: "redis_keys env_up ''todo:*'' = Inr [''todo:1'']" by (simp add: env_up_def)
  have r: "list_all (readable env_up) [''todo:1'']" by simp
  have m: "req_method req_todos_fail = ''GET''" "req_path req_todos_fail = ''/todos''"
    by (simp_all add: req_todos_fail_def)
  show ?thesis
    using fail_flag_sendStatus_500 [OF m q a k r, of env_up w_init]
    by (simp add: w_request_def w_init_def)
qed

text \<open>
  C5 as stated fails. When everything succeeds the body is not empty: it is the text
  \<open>Internal Server Error\<close>. When the auth call throws, when the store's \<open>keys\<close>
  throws, or when an item is not valid JSON, the response is 500 with the JSON body of the
  outer \<open>catch\<close>, and nothing is recorded on the active span.
\<close>

theorem fail_flag_counterexample:
  "truthy_query (req_query req_todos_fail ''fail'') \<and>
   replies (serve (todo_service env_up w_init) env_up req_todos_fail w_request) =
     [SendStatus 500 ''Internal Server Error''] \<and>
   replies (serve (todo_service env_up w_init) env_auth_down req_todos_fail w_request) =
     [SendJson 500 (JObj [(''error'', JStr ''Internal Server Error'')])] \<and>
   sp_exceptions (spans (serve (todo_service env_up w_init) env_auth_down req_todos_fail w_request) ! 0) = [] \<and>
   replies (serve (todo_service env_up w_init) env_store_down req_todos_fail w_request) =
     [SendJson 500 (JObj [(''error'', JStr ''Internal Server Error'')])] \<and>
   sp_exceptions (spans (serve (todo_service env_up w_init) env_store_down req_todos_fail w_request) ! 0) = [] \<and>
   replies (serve (todo_service env_up w_init) env_bad_item req_todos_fail w_request) =
     [SendJson 500 (JObj [(''error'', JStr ''Internal Server Error'')])] \<and>
   sp_exceptions (spans (serve (todo_service env_up w_init) env_bad_item req_todos_fail w_request) ! 0) = []"
proof -
  let ?h = "todo_service env_up w_init"
  let ?b = "[(''user.plan'', ''enterprise'')]"
  let ?wa = "(routed w_request)\<lparr>active := setBaggage (active (routed w_request)) ?b\<rparr>"
  have m: "req_method req_todos_fail = ''GET''" "req_path req_todos_fail = ''/todos''"
    by (simp_all add: req_todos_fail_def)
  have q: "truthy_query (req_query req_todos_fail ''fail'')" by (simp add: req_todos_fail_def)
  have z: "0 < length (spans (routed w_request))" "sp_exceptions (spans (routed w_request) ! 0) = []"
    by (simp_all add: w_request_def w_init_def)
  have up: "axios env_up ''GET'' ''http://auth:8080/auth''
             (inject env_up (setBaggage (active (routed w_request)) ?b)) =
           Inr \<lparr>resp_status = 200, resp_data = JStr ''ann''\<rparr>"
    by (simp add: env_up_def)
  have k: "redis_keys env_up ''todo:*'' = Inr [''todo:1'']" by (simp add: env_up_def)
  have r: "list_all (readable env_up) [''todo:1'']" by simp
  note ok = get_todos_fail_flag [OF q up k r, where eb = env_up and wb = w_init]
  have auth: "fst (fetch_user_and_todos ?h env_auth_down ?b ?wa) = Inl (JsError ''connect ECONNREFUSED'')"
    by (rule fetch_auth_throws(1)) (simp add: env_auth_down_def)
  have store: "fst (fetch_user_and_todos ?h env_store_down ?b ?wa) = Inl (JsError ''read ECONNRESET'')"
    by (simp add: fetch_user_and_todos_def case_prod_beta Let_def env_store_down_def env_up_def)
  have item: "fst (fetch_user_and_todos ?h env_bad_item ?b ?wa) = Inl (JsError ''Unexpected token'')"
    by (simp add: fetch_user_and_todos_def case_prod_beta Let_def await_redis_get_def
          env_bad_item_def env_up_def)
  note a = get_todos_fetch_throws [OF auth, where req = req_todos_fail]
  note s = get_todos_fetch_throws [OF store, where req = req_todos_fail]
  note p = get_todos_fetch_throws [OF item, where req = req_todos_fail]
  show ?thesis
    unfolding serve_todos [OF m]
    using q ok(1) a(1) a(2) [OF z(1)] s(1) s(2) [OF z(1)] p(1) p(2) [OF z(1)] z(2)
    by (simp add: on_finish_effect)
qed

subsection \<open>C6: trackInternalApiCall is observational\<close>

text \<open>
  C6, as amended. \<open>trackInternalApiCall\<close> returns exactly the outcome of the wrapped
  call: its response on success, the thrown value unchanged otherwise. It starts one span
  and, on every path, ends it exactly once. A thrown value is recorded on the span, with
  status \<open>ERROR\<close> and its message, when it is an instance of \<open>Error\<close>; any other thrown
  value is re-raised without being recorded. Observations and replies are left alone.
\<close>

theorem trackInternalApiCall_observational:
  "fst (trackInternalApiCall e url method bg w) = axios e method url (inject e (active w)) \<and>
   spans (snd (trackInternalApiCall e url method bg w)) =
     spans w @
       [\<lparr>sp_name = ''Internal API Call: '' @ url,
         sp_attributes =
           (case axios e method url (inject e (active w)) of
              Inl x \<Rightarrow> []
            | Inr response \<Rightarrow>
                [(''http.status_code'', ANum (resp_status response)), (''http.method'', AStr method),
                 (''http.url'', AStr url)]),
         sp_exceptions =
           (case axios e method url (inject e (active w)) of
              Inl x \<Rightarrow> if instanceof_Error x then [x] else []
            | Inr response \<Rightarrow> []),
         sp_status =
           (case axios e method url (inject e (active w)) of
              Inl x \<Rightarrow> if instanceof_Error x then (ERROR, message x) else (UNSET, AUndefined)
            | Inr response \<Rightarrow> (UNSET, AUndefined)),
         sp_end_calls = 1\<rparr>] \<and>
   observations (snd (trackInternalApiCall e url method bg w)) = observations w \<and>
   replies (snd (trackInternalApiCall e url method bg w)) = replies w"
proof -
  have "request_frame w (snd (trackInternalApiCall e url method bg w))" by simp
  then have "replies (snd (trackInternalApiCall e url method bg w)) = replies w"
    by (simp add: request_frame_def)
  then show ?thesis by (simp add: tiac_spans)
qed

text \<open>
  C6 as stated fails for a thrown value that is not an \<open>Error\<close>: it reaches the caller,
  and the span has no recorded exception.
\<close>

theorem trackInternalApiCall_counterexample:
  "fst (trackInternalApiCall env_auth_rejects_value ''http://auth:8080/auth'' ''GET'' [] w_init) =
     Inl (JsOther (JStr ''aborted'')) \<and>
   sp_exceptions
     (spans (snd (trackInternalApiCall env_auth_rejects_value ''http://auth:8080/auth'' ''GET'' [] w_init)) ! 0) = []"
  by (simp add: tiac_spans env_auth_rejects_value_def env_up_def w_init_def)

subsection \<open>C8: a failing sdk.start() does not stop start\<close>

text \<open>
  C8. When \<open>sdk.start()\<close> throws, both \<open>start\<close> functions log the thrown value, and
  nothing else, leave the SDK not running, and return the handle with the meter and the
  five tracking functions.
\<close>

theorem start_survives_sdk_failure:
  assumes "sdk_start e = Some error"
  shows "fst (start e serviceName w) = handle_of serviceName \<and>
         console (snd (start e serviceName w)) =
           console w @ [LogError ''Error starting OpenTelemetry SDK:'' error] \<and>
         \<not> sdk_running (snd (start e serviceName w)) \<and>
         fst (start_000 e serviceName w) = handle_of serviceName \<and>
         console (snd (start_000 e serviceName w)) =
           console w @ [LogError ''Error starting OpenTelemetry SDK:'' error] \<and>
         \<not> sdk_running (snd (start_000 e serviceName w))"
  using assms
  by (simp add: start_handle start_000_handle start_console start_sdk_running)

text \<open>C8 at an environment whose \<open>sdk.start()\<close> throws.\<close>

theorem start_survives_sdk_failure_witness:
  "fst (start env_sdk_fails ''todo-service'' w_init) = handle_of ''todo-service'' \<and>
   console (snd (start env_sdk_fails ''todo-service'' w_init)) =
     [LogError ''Error starting OpenTelemetry SDK:'' (JsError ''EADDRINUSE'')] \<and>
   fst (start_000 env_sdk_fails ''todo-service'' w_init) = handle_of ''todo-service''"
proof -
  have f: "sdk_start env_sdk_fails = Some (JsError ''EADDRINUSE'')"
    by (simp add: env_sdk_fails_def)
  have c: "console w_init = []" by (simp add: w_init_def)
  show ?thesis
    using start_survives_sdk_failure [OF f, of "''todo-service''" w_init] c by simp
qed

subsection \<open>C9: the two bootstrap files\<close>



subsection \<open>C10: a failing auth call\<close>

text \<open>
  C10. When the call to the auth service made for \<open>GET /todos\<close> throws, the response
  is status 500 with the JSON body \<open>{"error": "Internal Server Error"}\<close>, no command is
  sent to the store, and the handler hands no error to the framework.
\<close>

theorem auth_failure_answered_500:
  assumes "req_method req = ''GET''" and "req_path req = ''/todos''"
    and "axios e ''GET'' ''http://auth:8080/auth''
           (inject e (setBaggage (active w) [(''user.plan'', ''enterprise'')])) = Inl x"
  shows "replies (serve (todo_service eb wb) e req w) =
           [SendJson 500 (JObj [(''error'', JStr ''Internal Server Error'')])] \<and>
         res_statusCode (serve (todo_service eb wb) e req w) = 500 \<and>
         redis_commands (serve (todo_service eb wb) e req w) = redis_commands w \<and>
         fst (get_todos (todo_service eb wb) e req (routed w)) = NoNext"
proof -
  let ?h = "todo_service eb wb"
  have a: "axios e ''GET'' ''http://auth:8080/auth''
             (inject e (setBaggage (active (routed w)) [(''user.plan'', ''enterprise'')])) = Inl x"
    using assms(3) by simp
  note g = get_todos_auth_throws [OF a, where h = ?h and req = req]
  show ?thesis
    unfolding serve_todos [OF assms(1,2)]
    using g(1,2,3) by (simp add: on_finish_effect get_todos_next)
qed

text \<open>C10 at an environment whose auth call is refused.\<close>

theorem auth_failure_answered_500_witness:
  "replies (serve (todo_service env_up w_init) env_auth_down req_todos w_init) =
     [SendJson 500 (JObj [(''error'', JStr ''Internal Server Error'')])] \<and>
   redis_commands (serve (todo_service env_up w_init) env_auth_down req_todos w_init) = []"
  using auth_failure_answered_500 [of req_todos env_auth_down w_init "JsError ''connect ECONNREFUSED''"
          env_up w_init]
  by (simp add: req_todos_def env_auth_down_def env_up_def w_init_def)

end
